theory Spec2Isabelle
  imports Complex_Main
begin

section \<open>The document, the selection and the layout engine\<close>

text \<open>
  The caret utilities of \<^verbatim>\<open>src/blocks/block-controls/index.js\<close> read and write the
  browser's DOM. The code never changes the shape of the document tree, so a node is
  identified by its position in the tree: the list of child indices that leads to it,
  innermost index first. The empty list is the document node, \<open>i # p\<close> is child number
  \<open>i\<close> of node \<open>p\<close>. Node identity (\<^verbatim>\<open>===\<close> on nodes) is equality of positions.
\<close>

type_synonym node = "nat list"

text \<open>A DOM Range: two boundary points, each a node and an offset.\<close>

record drange =
  startContainer :: node
  startOffset :: nat
  endContainer :: node
  endOffset :: nat

text \<open>
  A DOMRect. JavaScript numbers are modelled as real numbers; rounding of IEEE doubles
  is not modelled. The fields are the ones the code reads, with no relation assumed
  between them.
\<close>

record dom_rect =
  rect_left :: real
  rect_top :: real
  rect_width :: real
  rect_height :: real
  rect_bottom :: real

text \<open>
  The state the code reads and writes. The first six fields describe the document and
  are never written by the code; the others are the mutable state:
  the selection of each text control, the ranges of the document's Selection object,
  the focused element, each element's inline \<^verbatim>\<open>style.zIndex\<close> (the empty string when
  unset) and the scroll position, recorded as the arguments of the last
  \<^verbatim>\<open>scrollIntoView\<close> (\<open>None\<close> for the position the page had before).
  \<open>textContent\<close> is \<open>None\<close> where the DOM gives \<^verbatim>\<open>null\<close> (the document node).
  Inputs are text controls: \<open>selectionStart\<close> and \<open>selectionEnd\<close> are numbers, and one
  \<open>char\<close> of \<open>inputValue\<close> stands for one UTF-16 code unit.
\<close>

record dom =
  childCount :: "node \<Rightarrow> nat"
  nodeType :: "node \<Rightarrow> nat"
  tagName :: "node \<Rightarrow> string"
  isContentEditable :: "node \<Rightarrow> bool"
  textContent :: "node \<Rightarrow> string option"
  inputValue :: "node \<Rightarrow> string"
  selectionStart :: "node \<Rightarrow> nat"
  selectionEnd :: "node \<Rightarrow> nat"
  ranges :: "drange list"
  activeElement :: "node option"
  zIndex :: "node \<Rightarrow> string"
  scroll :: "(node \<times> bool) option"

text \<open>
  The layout engine, which the code only calls. Boxes are a function of the scroll
  position; hit testing (which caret position lies under a point of the viewport) is a
  function of the scroll position and of the stacking order. Neither depends on the
  selection or on the focus. \<open>nativeCaretRangeFromPoint\<close> is
  \<^verbatim>\<open>document.caretRangeFromPoint\<close>, which answers \<^verbatim>\<open>null\<close> or a collapsed range,
  given by its boundary point; \<open>nativeCaretPositionFromPoint\<close> is
  \<^verbatim>\<open>document.caretPositionFromPoint\<close>, which answers \<^verbatim>\<open>null\<close> or a caret position.
  \<open>rangeClientRect\<close> is \<^verbatim>\<open>range.getClientRects()[0]\<close>, \<^verbatim>\<open>undefined\<close> being \<open>None\<close>.
\<close>

record browser =
  hasCaretRangeFromPoint :: bool
  hasCaretPositionFromPoint :: bool
  nativeCaretRangeFromPoint :: "(node \<Rightarrow> string) \<Rightarrow> (node \<times> bool) option \<Rightarrow> real \<Rightarrow> real \<Rightarrow> (node \<times> nat) option"
  nativeCaretPositionFromPoint :: "(node \<Rightarrow> string) \<Rightarrow> (node \<times> bool) option \<Rightarrow> real \<Rightarrow> real \<Rightarrow> (node \<times> nat) option"
  boundingClientRect :: "(node \<times> bool) option \<Rightarrow> node \<Rightarrow> dom_rect"
  rangeClientRect :: "(node \<times> bool) option \<Rightarrow> drange \<Rightarrow> dom_rect option"

text \<open>
  A JavaScript exception ends the call. The outcome of a call is its result, or the
  exception, together with the state it leaves behind.
\<close>

datatype error = TypeError

type_synonym 'a outcome = "(error + 'a) \<times> dom"

subsection \<open>DOM primitives\<close>

definition ELEMENT_NODE :: nat where
  "ELEMENT_NODE = 1"

definition parentNode :: "node \<Rightarrow> node option" where
  "parentNode n = (case n of [] \<Rightarrow> None | i # p \<Rightarrow> Some p)"

definition firstChild :: "dom \<Rightarrow> node \<Rightarrow> node option" where
  "firstChild d p = (if childCount d p = 0 then None else Some (0 # p))"

definition lastChild :: "dom \<Rightarrow> node \<Rightarrow> node option" where
  "lastChild d p = (if childCount d p = 0 then None else Some ((childCount d p - 1) # p))"

text \<open>\<^verbatim>\<open>container.contains(other)\<close>: \<open>other\<close> is the container or one of its descendants.\<close>

fun contains :: "node \<Rightarrow> node \<Rightarrow> bool" where
  "contains c [] = (c = [])"
| "contains c (i # p) = (c = i # p \<or> contains c p)"

definition collapsed :: "drange \<Rightarrow> bool" where
  "collapsed r = (startContainer r = endContainer r \<and> startOffset r = endOffset r)"

text \<open>\<^verbatim>\<open>selection.rangeCount ? selection.getRangeAt( 0 ) : null\<close>\<close>

definition getRangeAt0 :: "dom \<Rightarrow> drange option" where
  "getRangeAt0 d = (case ranges d of [] \<Rightarrow> None | r # rs \<Rightarrow> Some r)"

text \<open>\<^verbatim>\<open>includes( [ 'INPUT', 'TEXTAREA' ], container.tagName )\<close>\<close>

definition isInput :: "dom \<Rightarrow> node \<Rightarrow> bool" where
  "isInput d container = (tagName d container \<in> set [''INPUT'', ''TEXTAREA''])"

section \<open>isHorizontalEdge\<close>

text \<open>
  The \<^verbatim>\<open>while ( node !== container )\<close> loop. Each round reads
  \<^verbatim>\<open>parentNode[ order + 'Child' ]\<close>; when \<^verbatim>\<open>node.parentNode\<close> is \<^verbatim>\<open>null\<close> (the
  node is the document) that property read raises a TypeError.
\<close>

fun isHorizontalEdge_loop :: "dom \<Rightarrow> bool \<Rightarrow> node \<Rightarrow> node \<Rightarrow> error + bool" where
  "isHorizontalEdge_loop d isReverse container [] =
     (if [] = container then Inr True else Inl TypeError)"
| "isHorizontalEdge_loop d isReverse container (i # p) =
     (if i # p = container then Inr True
      else if (if isReverse then firstChild d p else lastChild d p) \<noteq> Some (i # p) then Inr False
      else isHorizontalEdge_loop d isReverse container p)"

definition isHorizontalEdge :: "dom \<Rightarrow> node \<Rightarrow> bool \<Rightarrow> bool outcome" where
  "isHorizontalEdge d container isReverse =
     (if isInput d container then
        (if selectionStart d container \<noteq> selectionEnd d container then (Inr False, d)
         else if isReverse then (Inr (selectionStart d container = 0), d)
         else (Inr (length (inputValue d container) = selectionStart d container), d))
      else if \<not> isContentEditable d container then (Inr True, d)
      else
        (case getRangeAt0 d of
           None \<Rightarrow> (Inr False, d)
         | Some rng \<Rightarrow>
             if \<not> collapsed rng then (Inr False, d)
             else
               let offset = (if isReverse then startOffset rng else endOffset rng);
                   node = startContainer rng
               in if isReverse \<and> offset \<noteq> 0 then (Inr False, d)
                  else if isReverse then (isHorizontalEdge_loop d isReverse container node, d)
                  else
                    (case textContent d node of
                       None \<Rightarrow> (Inl TypeError, d)
                     | Some t \<Rightarrow>
                         if offset \<noteq> length t then (Inr False, d)
                         else (isHorizontalEdge_loop d isReverse container node, d))))"

section \<open>getVerticalEdge\<close>

text \<open>The object the function returns: \<^verbatim>\<open>rect\<close> may be absent.\<close>

record edge_info =
  rect :: "dom_rect option"
  isEdge :: bool

text \<open>
  The caret rectangle \<^verbatim>\<open>rangeRect\<close> of the source: the start container's bounding
  rectangle when the start container is an element, else the first client rectangle of
  the range.
\<close>

definition rangeRect :: "browser \<Rightarrow> dom \<Rightarrow> drange \<Rightarrow> dom_rect option" where
  "rangeRect b d rng =
     (if nodeType d (startContainer rng) = ELEMENT_NODE
      then Some (boundingClientRect b (scroll d) (startContainer rng))
      else rangeClientRect b (scroll d) rng)"

definition getVerticalEdge :: "browser \<Rightarrow> dom \<Rightarrow> node \<Rightarrow> bool \<Rightarrow> edge_info outcome" where
  "getVerticalEdge b d container isReverse =
     (if isInput d container then
        (case isHorizontalEdge d container isReverse of
           (Inl e, d') \<Rightarrow> (Inl e, d')
         | (Inr v, d') \<Rightarrow> (Inr \<lparr>rect = None, isEdge = v\<rparr>, d'))
      else if \<not> isContentEditable d container then (Inr \<lparr>rect = None, isEdge = True\<rparr>, d)
      else
        (case getRangeAt0 d of
           None \<Rightarrow> (Inr \<lparr>rect = None, isEdge = False\<rparr>, d)
         | Some rng \<Rightarrow>
             if \<not> collapsed rng then (Inr \<lparr>rect = None, isEdge = False\<rparr>, d)
             else
               (case rangeRect b d rng of
                  None \<Rightarrow> (Inr \<lparr>rect = None, isEdge = False\<rparr>, d)
                | Some rr \<Rightarrow>
                    let buffer = rect_height rr / 2;
                        editableRect = boundingClientRect b (scroll d) container
                    in if isReverse \<and> rect_top rr - buffer > rect_top editableRect
                       then (Inr \<lparr>rect = Some rr, isEdge = False\<rparr>, d)
                       else if \<not> isReverse \<and> rect_bottom rr + buffer < rect_bottom editableRect
                       then (Inr \<lparr>rect = Some rr, isEdge = False\<rparr>, d)
                       else (Inr \<lparr>rect = Some rr, isEdge = True\<rparr>, d))))"

section \<open>placeCaretAtHorizontalEdge\<close>

text \<open>
  \<^verbatim>\<open>container.focus()\<close>: the container is a focusable element (the documented
  parameter type), so it becomes the active element. The ranges of the selection and
  the scroll position are left as they are.
\<close>

definition focus :: "dom \<Rightarrow> node \<Rightarrow> dom" where
  "focus d container = d\<lparr>activeElement := Some container\<rparr>"

text \<open>
  The setters of a text control (HTML, "set the selection range"): offsets beyond the
  value are clamped to its length, and an end that is not after the start collapses the
  selection at the end.
\<close>

definition setSelectionRange :: "dom \<Rightarrow> node \<Rightarrow> nat \<Rightarrow> nat \<Rightarrow> dom" where
  "setSelectionRange d el start end' =
     (let n = length (inputValue d el);
          s = min start n;
          e = min end' n
      in if e \<le> s
         then d\<lparr>selectionStart := (selectionStart d)(el := e), selectionEnd := (selectionEnd d)(el := e)\<rparr>
         else d\<lparr>selectionStart := (selectionStart d)(el := s), selectionEnd := (selectionEnd d)(el := e)\<rparr>)"

definition set_selectionStart :: "dom \<Rightarrow> node \<Rightarrow> nat \<Rightarrow> dom" where
  "set_selectionStart d el v =
     (let end' = selectionEnd d el;
          end'' = (if end' < v then v else end')
      in setSelectionRange d el v end'')"

definition set_selectionEnd :: "dom \<Rightarrow> node \<Rightarrow> nat \<Rightarrow> dom" where
  "set_selectionEnd d el v = setSelectionRange d el (selectionStart d el) v"

text \<open>
  Ranges. \<^verbatim>\<open>document.createRange()\<close> gives the range collapsed at the start of the
  document. The length of a node is its number of children, or the length of its data
  for character data (text 3, CDATA 4, processing instruction 7, comment 8).
\<close>

definition createRange :: drange where
  "createRange = \<lparr>startContainer = [], startOffset = 0, endContainer = [], endOffset = 0\<rparr>"

definition nodeLength :: "dom \<Rightarrow> node \<Rightarrow> nat" where
  "nodeLength d n =
     (if nodeType d n \<in> set [3, 4, 7, 8]
      then (case textContent d n of None \<Rightarrow> 0 | Some t \<Rightarrow> length t)
      else childCount d n)"

definition selectNodeContents :: "dom \<Rightarrow> drange \<Rightarrow> node \<Rightarrow> drange" where
  "selectNodeContents d rng n =
     rng\<lparr>startContainer := n, startOffset := 0, endContainer := n, endOffset := nodeLength d n\<rparr>"

definition collapse :: "drange \<Rightarrow> bool \<Rightarrow> drange" where
  "collapse rng toStart =
     (if toStart then rng\<lparr>endContainer := startContainer rng, endOffset := startOffset rng\<rparr>
      else rng\<lparr>startContainer := endContainer rng, startOffset := endOffset rng\<rparr>)"

text \<open>
  \<^verbatim>\<open>range.setStart( node, offset )\<close> moves the start; the end follows when the new
  start lies after it. Every boundary point of the document other than the start of the
  document lies after the start of the document, which is where the end of a range made
  by \<^verbatim>\<open>createRange\<close> is; the code calls \<^verbatim>\<open>setStart\<close> on such a range only.
\<close>

definition setStart :: "drange \<Rightarrow> node \<Rightarrow> nat \<Rightarrow> drange" where
  "setStart rng n off =
     (if endContainer rng = [] \<and> endOffset rng = 0
      then rng\<lparr>startContainer := n, startOffset := off, endContainer := n, endOffset := off\<rparr>
      else rng\<lparr>startContainer := n, startOffset := off\<rparr>)"

text \<open>
  The Selection object holds at most one range: \<^verbatim>\<open>addRange\<close> does nothing when it
  already has one.
\<close>

definition removeAllRanges :: "dom \<Rightarrow> dom" where
  "removeAllRanges d = d\<lparr>ranges := []\<rparr>"

definition addRange :: "dom \<Rightarrow> drange \<Rightarrow> dom" where
  "addRange d rng = (if ranges d = [] then d\<lparr>ranges := [rng]\<rparr> else d)"

definition placeCaretAtHorizontalEdge :: "dom \<Rightarrow> node \<Rightarrow> bool \<Rightarrow> dom" where
  "placeCaretAtHorizontalEdge d container isReverse =
     (if isInput d container then
        (let d1 = focus d container
         in if isReverse then
              (let d2 = set_selectionStart d1 container 0
               in set_selectionEnd d2 container 0)
            else
              (let d2 = set_selectionStart d1 container (length (inputValue d1 container))
               in set_selectionEnd d2 container (length (inputValue d2 container))))
      else if \<not> isContentEditable d container then focus d container
      else
        (let rng = createRange;
             rng = selectNodeContents d rng container;
             rng = collapse rng isReverse;
             d1 = removeAllRanges d;
             d2 = addRange d1 rng
         in focus d2 container))"

section \<open>placeCaretAtVerticalEdge\<close>

text \<open>
  The polyfill. \<^verbatim>\<open>doc.caretPositionFromPoint( x, y )\<close> may answer \<^verbatim>\<open>null\<close>;
  reading \<^verbatim>\<open>point.offsetNode\<close> then raises a TypeError.
\<close>

definition view_collapsedAt :: "node \<times> nat \<Rightarrow> drange" where
  "view_collapsedAt p =
     \<lparr>startContainer = fst p, startOffset = snd p, endContainer = fst p, endOffset = snd p\<rparr>"

definition caretRangeFromPoint :: "browser \<Rightarrow> dom \<Rightarrow> real \<Rightarrow> real \<Rightarrow> error + drange option" where
  "caretRangeFromPoint b d x y =
     (if hasCaretRangeFromPoint b
      then Inr (map_option view_collapsedAt (nativeCaretRangeFromPoint b (zIndex d) (scroll d) x y))
      else if \<not> hasCaretPositionFromPoint b then Inr None
      else
        (case nativeCaretPositionFromPoint b (zIndex d) (scroll d) x y of
           None \<Rightarrow> Inl TypeError
         | Some point \<Rightarrow>
             let rng = createRange;
                 rng = setStart rng (fst point) (snd point);
                 rng = collapse rng True
             in Inr (Some rng)))"

text \<open>\<^verbatim>\<open>container.scrollIntoView( alignToTop )\<close>\<close>

definition scrollIntoView :: "dom \<Rightarrow> node \<Rightarrow> bool \<Rightarrow> dom" where
  "scrollIntoView d container alignToTop = d\<lparr>scroll := Some (container, alignToTop)\<rparr>"

definition set_zIndex :: "dom \<Rightarrow> node \<Rightarrow> string \<Rightarrow> dom" where
  "set_zIndex d container v = d\<lparr>zIndex := (zIndex d)(container := v)\<rparr>"

text \<open>
  The function itself; \<open>rect'\<close> is the optional \<^verbatim>\<open>rect\<close> argument. The inner case
  distinction is the test \<^verbatim>\<open>! range || ! container.contains( range.startContainer )\<close>
  of line 230: it gives the range when the test fails and nothing when it holds. An
  exception in \<^verbatim>\<open>caretRangeFromPoint\<close> ends the call before the z-index is reset.
  The source applies the found range a second time after \<^verbatim>\<open>container.focus()\<close>, against
  an editor that goes back to an older range when focused; \<open>focus\<close> here leaves the ranges
  alone, and the second application is kept as the source has it.
\<close>

function placeCaretAtVerticalEdge ::
  "browser \<Rightarrow> dom \<Rightarrow> node \<Rightarrow> bool \<Rightarrow> dom_rect option \<Rightarrow> bool \<Rightarrow> unit outcome" where
  "placeCaretAtVerticalEdge b d container isReverse rect' mayUseScroll =
     (case rect' of
        None \<Rightarrow> (Inr (), placeCaretAtHorizontalEdge d container isReverse)
      | Some r \<Rightarrow>
          if \<not> isContentEditable d container
          then (Inr (), placeCaretAtHorizontalEdge d container isReverse)
          else
            let buffer = rect_height r / 2;
                editableRect = boundingClientRect b (scroll d) container;
                x = rect_left r + (rect_width r / 2);
                y = (if isReverse then rect_bottom editableRect - buffer
                     else rect_top editableRect + buffer);
                d1 = set_zIndex d container ''10000''
            in (case caretRangeFromPoint b d1 x y of
                  Inl e \<Rightarrow> (Inl e, d1)
                | Inr found \<Rightarrow>
                    let d2 = set_zIndex d1 container ''''
                    in (case (case found of None \<Rightarrow> None
                                | Some rng \<Rightarrow> if contains container (startContainer rng) then Some rng else None) of
                          None \<Rightarrow>
                            if mayUseScroll
                            then placeCaretAtVerticalEdge b (scrollIntoView d2 container isReverse)
                                   container isReverse rect' False
                            else (Inr (), placeCaretAtHorizontalEdge d2 container isReverse)
                        | Some rng \<Rightarrow>
                            let d3 = removeAllRanges d2;
                                d4 = addRange d3 rng;
                                d5 = focus d4 container;
                                d6 = removeAllRanges d5;
                                d7 = addRange d6 rng
                            in (Inr (), d7))))"
  by pat_completeness auto
termination
  by (relation "measure (\<lambda>(b, d, container, isReverse, rect', mayUseScroll). if mayUseScroll then 1 else 0)") auto

declare placeCaretAtVerticalEdge.simps [simp del]

section \<open>The specification's wording\<close>

text \<open>
  The horizontal edge test as the specification words it. The nodes from the caret's
  node up to the document are the node, its parent, and so on; a node takes the edge
  link when it is the first child (reverse) or the last child (forward) of its parent.
  The caret is at the edge of a rich region when the container is reached and every
  node met before it takes the edge link.
\<close>

fun inclusiveAncestors :: "node \<Rightarrow> node list" where
  "inclusiveAncestors [] = [[]]"
| "inclusiveAncestors (i # p) = (i # p) # inclusiveAncestors p"

definition edgeLink :: "dom \<Rightarrow> bool \<Rightarrow> node \<Rightarrow> bool" where
  "edgeLink d isReverse n =
     (case parentNode n of
        None \<Rightarrow> False
      | Some p \<Rightarrow> (if isReverse then firstChild d p else lastChild d p) = Some n)"

definition edgeChain :: "dom \<Rightarrow> bool \<Rightarrow> node \<Rightarrow> node \<Rightarrow> bool" where
  "edgeChain d isReverse container n =
     (contains container n \<and>
      list_all (edgeLink d isReverse) (takeWhile (\<lambda>m. m \<noteq> container) (inclusiveAncestors n)))"

text \<open>
  The offset is at the start of the caret's node when it is 0, and at its end when it
  is the length of the node: the number of children of an element, the length of the
  data of a text node.
\<close>

definition offsetAtEdge :: "dom \<Rightarrow> bool \<Rightarrow> drange \<Rightarrow> bool" where
  "offsetAtEdge d isReverse rng =
     (if isReverse then startOffset rng = 0
      else endOffset rng = nodeLength d (startContainer rng))"

definition isHorizontalEdge_spec :: "dom \<Rightarrow> node \<Rightarrow> bool \<Rightarrow> bool" where
  "isHorizontalEdge_spec d container isReverse =
     (if isInput d container then
        selectionStart d container = selectionEnd d container \<and>
        selectionStart d container = (if isReverse then 0 else length (inputValue d container))
      else if isContentEditable d container then
        (case getRangeAt0 d of
           None \<Rightarrow> False
         | Some rng \<Rightarrow>
             collapsed rng \<and> offsetAtEdge d isReverse rng \<and>
             edgeChain d isReverse container (startContainer rng))
      else True)"

text \<open>
  The vertical edge test on a rich region as the specification words it: no edge and
  no rectangle without a collapsed range or without a caret rectangle; otherwise the
  rectangle, and the edge holds when the caret's near edge, moved by half the caret's
  height towards the container's edge, reaches it.
\<close>

definition nearEdgeWithinBuffer :: "bool \<Rightarrow> dom_rect \<Rightarrow> dom_rect \<Rightarrow> bool" where
  "nearEdgeWithinBuffer isReverse caret box =
     (if isReverse then rect_top caret - rect_height caret / 2 \<le> rect_top box
      else rect_bottom box \<le> rect_bottom caret + rect_height caret / 2)"

definition getVerticalEdge_spec :: "browser \<Rightarrow> dom \<Rightarrow> node \<Rightarrow> bool \<Rightarrow> edge_info" where
  "getVerticalEdge_spec b d container isReverse =
     (case getRangeAt0 d of
        None \<Rightarrow> \<lparr>rect = None, isEdge = False\<rparr>
      | Some rng \<Rightarrow>
          if \<not> collapsed rng then \<lparr>rect = None, isEdge = False\<rparr>
          else
            (case rangeRect b d rng of
               None \<Rightarrow> \<lparr>rect = None, isEdge = False\<rparr>
             | Some caret \<Rightarrow>
                 \<lparr>rect = Some caret,
                  isEdge = nearEdgeWithinBuffer isReverse caret
                             (boundingClientRect b (scroll d) container)\<rparr>))"

text \<open>
  The caret rectangle as the specification words it: the range's client rectangle, and
  the start container's bounding rectangle as the fallback when the range has none.
\<close>

definition rangeRect_spec :: "browser \<Rightarrow> dom \<Rightarrow> drange \<Rightarrow> dom_rect option" where
  "rangeRect_spec b d rng =
     (case rangeClientRect b (scroll d) rng of
        Some r \<Rightarrow> Some r
      | None \<Rightarrow> Some (boundingClientRect b (scroll d) (startContainer rng)))"

text \<open>
  Names for the steps of \<^verbatim>\<open>placeCaretAtVerticalEdge\<close>, to state its properties: the
  range found under the target point (lines 216 to 226), that range when its start
  lies in the container (the test of line 230 failing), the state in which that test is
  made, and the application of a found range (lines 243 to 249).
\<close>

definition pointResolution :: "browser \<Rightarrow> dom \<Rightarrow> node \<Rightarrow> bool \<Rightarrow> dom_rect \<Rightarrow> error + drange option" where
  "pointResolution b d container isReverse r =
     (let buffer = rect_height r / 2;
          editableRect = boundingClientRect b (scroll d) container;
          x = rect_left r + (rect_width r / 2);
          y = (if isReverse then rect_bottom editableRect - buffer
               else rect_top editableRect + buffer)
      in caretRangeFromPoint b (set_zIndex d container ''10000'') x y)"

definition insideContainer :: "node \<Rightarrow> drange option \<Rightarrow> drange option" where
  "insideContainer container found =
     (case found of
        None \<Rightarrow> None
      | Some rng \<Rightarrow> if contains container (startContainer rng) then Some rng else None)"

definition afterResolution :: "dom \<Rightarrow> node \<Rightarrow> dom" where
  "afterResolution d container = set_zIndex (set_zIndex d container ''10000'') container ''''"

definition applyRange :: "dom \<Rightarrow> node \<Rightarrow> drange \<Rightarrow> dom" where
  "applyRange d container rng =
     addRange (removeAllRanges (focus (addRange (removeAllRanges d) rng) container)) rng"

text \<open>
  The selection the repositioning is meant to leave: exactly one range, collapsed, with
  its boundary point in the container or in one of its descendants.
\<close>

definition oneCollapsedRangeInside :: "dom \<Rightarrow> node \<Rightarrow> bool" where
  "oneCollapsedRangeInside d container =
     (case ranges d of
        [rng] \<Rightarrow> collapsed rng \<and> contains container (startContainer rng)
      | _ \<Rightarrow> False)"

text \<open>
  Two states show the layout engine the same page around a container: same scroll
  position, same stacking order once the container is raised, same document.
\<close>

definition sameView :: "node \<Rightarrow> dom \<Rightarrow> dom \<Rightarrow> bool" where
  "sameView c d d' =
     (scroll d' = scroll d \<and> (zIndex d')(c := ''10000'') = (zIndex d)(c := ''10000'')
      \<and> isContentEditable d' = isContentEditable d \<and> tagName d' = tagName d
      \<and> inputValue d' = inputValue d \<and> childCount d' = childCount d
      \<and> nodeType d' = nodeType d \<and> textContent d' = textContent d)"

section \<open>An example page\<close>

text \<open>
  A page used to run the code: the document holds \<^verbatim>\<open>html\<close>, which holds \<^verbatim>\<open>head\<close> and
  \<^verbatim>\<open>body\<close>; the body holds an editable \<^verbatim>\<open>div\<close> (the text "ab" and an \<^verbatim>\<open>em\<close> with the
  text "cd"), an \<^verbatim>\<open>input\<close> with the value "hello", and a paragraph with the text "xyz".
  The caret is at the end of "cd".
\<close>

definition exDiv :: node where
  "exDiv = [0, 1, 0]"
definition exInput :: node where
  "exInput = [1, 1, 0]"
definition exPara :: node where
  "exPara = [2, 1, 0]"
definition exTextAb :: node where
  "exTextAb = [0, 0, 1, 0]"
definition exTextCd :: node where
  "exTextCd = [0, 1, 0, 1, 0]"
definition exTextXyz :: node where
  "exTextXyz = [0, 2, 1, 0]"

definition caretAt :: "node \<Rightarrow> nat \<Rightarrow> drange" where
  "caretAt n off = \<lparr>startContainer = n, startOffset = off, endContainer = n, endOffset = off\<rparr>"

definition exPage :: dom where
  "exPage =
     \<lparr>childCount = (\<lambda>n. if n = [] then 1 else if n = [0] then 2 else if n = [1, 0] then 3
                        else if n = [0, 1, 0] then 2 else if n = [1, 0, 1, 0] then 1
                        else if n = [2, 1, 0] then 1 else 0),
      nodeType = (\<lambda>n. if n = [] then 9
                      else if n = [0, 0, 1, 0] \<or> n = [0, 1, 0, 1, 0] \<or> n = [0, 2, 1, 0] then 3
                      else 1),
      tagName = (\<lambda>n. if n = [1, 1, 0] then ''INPUT'' else if n = [0, 1, 0] then ''DIV''
                     else if n = [2, 1, 0] then ''P'' else ''''),
      isContentEditable = (\<lambda>n. contains [0, 1, 0] n),
      textContent = (\<lambda>n. if n = [] then None else if n = [0, 0, 1, 0] then Some ''ab''
                         else if n = [0, 1, 0, 1, 0] \<or> n = [1, 0, 1, 0] then Some ''cd''
                         else if n = [0, 1, 0] then Some ''abcd''
                         else if n = [0, 2, 1, 0] \<or> n = [2, 1, 0] then Some ''xyz''
                         else if n = [1, 0] \<or> n = [0] then Some ''abcdxyz'' else Some ''''),
      inputValue = (\<lambda>n. if n = [1, 1, 0] then ''hello'' else ''''),
      selectionStart = (\<lambda>n. if n = [1, 1, 0] then 2 else 0),
      selectionEnd = (\<lambda>n. if n = [1, 1, 0] then 4 else 0),
      ranges = [caretAt [0, 1, 0, 1, 0] 2],
      activeElement = None,
      zIndex = (\<lambda>n. ''''),
      scroll = None\<rparr>"

definition exBox :: dom_rect where
  "exBox = \<lparr>rect_left = 0, rect_top = 100, rect_width = 200, rect_height = 40, rect_bottom = 140\<rparr>"

definition exCaret :: dom_rect where
  "exCaret = \<lparr>rect_left = 10, rect_top = 102, rect_width = 1, rect_height = 16, rect_bottom = 118\<rparr>"

text \<open>
  A browser with \<^verbatim>\<open>caretRangeFromPoint\<close>: before any scrolling the target point is
  out of view and no range is found; once the page is scrolled the point lies in "ab".
  And a browser that has only \<^verbatim>\<open>caretPositionFromPoint\<close>, with the point out of view.
\<close>

definition exBrowser :: browser where
  "exBrowser =
     \<lparr>hasCaretRangeFromPoint = True,
      hasCaretPositionFromPoint = False,
      nativeCaretRangeFromPoint = (\<lambda>z s x y. if s = None then None else Some ([0, 0, 1, 0], 1)),
      nativeCaretPositionFromPoint = (\<lambda>z s x y. None),
      boundingClientRect = (\<lambda>s n. exBox),
      rangeClientRect = (\<lambda>s r. Some exCaret)\<rparr>"

definition exPolyfillBrowser :: browser where
  "exPolyfillBrowser =
     \<lparr>hasCaretRangeFromPoint = False,
      hasCaretPositionFromPoint = True,
      nativeCaretRangeFromPoint = (\<lambda>z s x y. None),
      nativeCaretPositionFromPoint = (\<lambda>z s x y. None),
      boundingClientRect = (\<lambda>s n. exBox),
      rangeClientRect = (\<lambda>s r. Some exCaret)\<rparr>"

text \<open>The same page with the caret in the editable \<^verbatim>\<open>div\<close> itself, before its first child.\<close>

definition exElementCaretPage :: dom where
  "exElementCaretPage = exPage\<lparr>ranges := [caretAt [0, 1, 0] 0]\<rparr>"

text \<open>
  A page whose editable \<^verbatim>\<open>div\<close> holds the text "a" and two line breaks, with the
  caret in the \<^verbatim>\<open>div\<close> after the text.
\<close>

definition exBreaksPage :: dom where
  "exBreaksPage =
     exPage\<lparr>childCount := (\<lambda>n. if n = [] then 1 else if n = [0] then 2 else if n = [1, 0] then 3
                               else if n = [0, 1, 0] then 3 else if n = [2, 1, 0] then 1 else 0),
            nodeType := (\<lambda>n. if n = [] then 9
                            else if n = [0, 0, 1, 0] \<or> n = [0, 2, 1, 0] then 3 else 1),
            textContent := (\<lambda>n. if n = [] then None
                               else if n = [0, 0, 1, 0] \<or> n = [0, 1, 0] then Some ''a''
                               else if n = [0, 2, 1, 0] \<or> n = [2, 1, 0] then Some ''xyz''
                               else if n = [1, 0] \<or> n = [0] then Some ''axyz'' else Some ''''),
            ranges := [caretAt [0, 1, 0] 1]\<rparr>"

text \<open>
  A browser in which a collapsed range gets a client rectangle only when its boundary
  point is in a text node of the example page.
\<close>

definition exTextRectBrowser :: browser where
  "exTextRectBrowser =
     exBrowser\<lparr>rangeClientRect :=
       (\<lambda>s r. if nodeType exPage (startContainer r) = 3 then Some exCaret else None)\<rparr>"

text \<open>
  The same page with no selection at all, and with the caret at the end of "xyz", the
  last text of the document, outside the editable \<^verbatim>\<open>div\<close>.
\<close>

definition exNoSelectionPage :: dom where
  "exNoSelectionPage = exPage\<lparr>ranges := []\<rparr>"

definition exOutsideCaretPage :: dom where
  "exOutsideCaretPage = exPage\<lparr>ranges := [caretAt [0, 2, 1, 0] 3]\<rparr>"

section \<open>Properties of isHorizontalEdge\<close>

lemma isHorizontalEdge_loop_edgeChain:
  "isHorizontalEdge_loop d isReverse container n = Inr True
     \<longleftrightarrow> edgeChain d isReverse container n"
  by (induction n) (auto simp: edgeChain_def edgeLink_def parentNode_def)

lemma isHorizontalEdge_where_lengths_agree:
  assumes "\<And>rng. getRangeAt0 d = Some rng \<Longrightarrow>
             map_option length (textContent d (startContainer rng))
               = Some (nodeLength d (startContainer rng))"
  shows "fst (isHorizontalEdge d container isReverse) = Inr True
           \<longleftrightarrow> isHorizontalEdge_spec d container isReverse"
proof (cases "getRangeAt0 d")
  case None
  then show ?thesis
    by (auto simp: isHorizontalEdge_def isHorizontalEdge_spec_def)
next
  case (Some rng)
  from assms [OF Some] obtain t where
    t: "textContent d (startContainer rng) = Some t" "length t = nodeLength d (startContainer rng)"
    by auto
  show ?thesis
    using Some t
    by (auto simp: isHorizontalEdge_def isHorizontalEdge_spec_def offsetAtEdge_def
          isHorizontalEdge_loop_edgeChain Let_def collapsed_def
        split: if_splits)
qed

text \<open>
  Claim C1 does not hold of the code. On a rich content-editable region the forward
  test of line 60 compares the offset with the length of the text content of the
  caret's node, which is the end of the node only when the node is a text node. With
  the caret at the end of the editable \<^verbatim>\<open>div\<close>, after its second and last child, where
  \<^verbatim>\<open>placeCaretAtHorizontalEdge( div, false )\<close> puts it, the selection is collapsed,
  the offset is at the end of the caret's node and the caret's node is the container:
  the claim's condition holds and \<^verbatim>\<open>isHorizontalEdge( div, false )\<close> returns false.
  With the caret in the \<^verbatim>\<open>div\<close> between the text "a" and two line breaks the offset is
  not at the end of the node and the call returns true.
\<close>

theorem isHorizontalEdge_element_caret:
  "ranges (placeCaretAtHorizontalEdge exPage exDiv False) = [caretAt exDiv 2]
     \<and> isHorizontalEdge_spec (placeCaretAtHorizontalEdge exPage exDiv False) exDiv False
     \<and> fst (isHorizontalEdge (placeCaretAtHorizontalEdge exPage exDiv False) exDiv False)
         = Inr False
     \<and> \<not> isHorizontalEdge_spec exBreaksPage exDiv False
     \<and> fst (isHorizontalEdge exBreaksPage exDiv False) = Inr True"
proof -
  have placed: "placeCaretAtHorizontalEdge exPage exDiv False
      = exPage\<lparr>ranges := [caretAt exDiv 2], activeElement := Some exDiv\<rparr>"
    by (simp add: placeCaretAtHorizontalEdge_def isInput_def focus_def addRange_def
          removeAllRanges_def createRange_def selectNodeContents_def collapse_def nodeLength_def
          caretAt_def exPage_def exDiv_def Let_def)
  have 1: "isHorizontalEdge_spec (exPage\<lparr>ranges := [caretAt exDiv 2], activeElement := Some exDiv\<rparr>)
      exDiv False"
    by (simp add: isHorizontalEdge_spec_def isInput_def getRangeAt0_def collapsed_def
          offsetAtEdge_def nodeLength_def edgeChain_def caretAt_def exPage_def exDiv_def)
  have 2: "fst (isHorizontalEdge (exPage\<lparr>ranges := [caretAt exDiv 2], activeElement := Some exDiv\<rparr>)
      exDiv False) = Inr False"
    by (simp add: isHorizontalEdge_def isInput_def getRangeAt0_def collapsed_def caretAt_def
          exPage_def exDiv_def Let_def)
  have 3: "\<not> isHorizontalEdge_spec exBreaksPage exDiv False"
    by (simp add: isHorizontalEdge_spec_def isInput_def getRangeAt0_def collapsed_def
          offsetAtEdge_def nodeLength_def caretAt_def exBreaksPage_def exPage_def exDiv_def)
  have 4: "fst (isHorizontalEdge exBreaksPage exDiv False) = Inr True"
    by (simp add: isHorizontalEdge_def isInput_def getRangeAt0_def collapsed_def caretAt_def
          exBreaksPage_def exPage_def exDiv_def Let_def)
  show ?thesis
    using 1 2 3 4 by (simp add: placed)
qed

section \<open>Properties of getVerticalEdge\<close>

text \<open>
  Claim C2. On a rich content-editable container \<^verbatim>\<open>getVerticalEdge\<close> returns
  \<^verbatim>\<open>{ isEdge: false }\<close> with no rectangle when the selection has no range, when its
  first range is not collapsed, or when no caret rectangle is found. Otherwise it
  returns the caret rectangle, with both outcomes of the comparison, and \<^verbatim>\<open>isEdge\<close> is
  true exactly when the caret's top less half the caret's height is at most the
  container's top (reverse), or the caret's bottom plus half the caret's height is at
  least the container's bottom (forward).
\<close>

theorem getVerticalEdge_rich:
  assumes "\<not> isInput d container" and "isContentEditable d container"
  shows "getVerticalEdge b d container isReverse
           = (Inr (getVerticalEdge_spec b d container isReverse), d)"
  using assms
  by (auto simp: getVerticalEdge_def getVerticalEdge_spec_def nearEdgeWithinBuffer_def Let_def
      split: option.splits)

theorem getVerticalEdge_rich_witness:
  "\<not> isInput exPage exDiv \<and> isContentEditable exPage exDiv
     \<and> getVerticalEdge exBrowser exPage exDiv True
         = (Inr \<lparr>rect = Some exCaret, isEdge = True\<rparr>, exPage)"
proof -
  have h1: "\<not> isInput exPage exDiv"
    by (simp add: isInput_def exPage_def exDiv_def)
  have h2: "isContentEditable exPage exDiv"
    by (simp add: exPage_def exDiv_def)
  have "getVerticalEdge_spec exBrowser exPage exDiv True = \<lparr>rect = Some exCaret, isEdge = True\<rparr>"
    by (simp add: getVerticalEdge_spec_def getRangeAt0_def collapsed_def rangeRect_def
          nearEdgeWithinBuffer_def exPage_def exBrowser_def exDiv_def caretAt_def
          ELEMENT_NODE_def exCaret_def exBox_def)
  then show ?thesis
    using h1 h2 getVerticalEdge_rich [OF h1 h2, of exBrowser True] by simp
qed

text \<open>
  Claim C8. A collapsed range whose boundary point is in an element has no client
  rectangle: \<^verbatim>\<open>getClientRects\<close> gives rectangles for the elements a range selects and
  for the text nodes that hold a boundary point. In such a browser, on a rich
  content-editable region with a collapsed selection, the caret rectangle that
  \<^verbatim>\<open>getVerticalEdge\<close> returns is the range's client rectangle whenever the range has
  one; the start container's own bounding rectangle is returned only when the range
  has none, and then for a start container that is an element; and when no rectangle
  is returned \<^verbatim>\<open>isEdge\<close> is false. A rectangle that is returned is the one the
  specification's wording selects.
\<close>

theorem getVerticalEdge_caret_rect:
  assumes "\<not> isInput d container" and "isContentEditable d container"
    and "getRangeAt0 d = Some rng" and "collapsed rng"
    and "nodeType d (startContainer rng) = ELEMENT_NODE
           \<longrightarrow> rangeClientRect b (scroll d) rng = None"
  shows "\<exists>e. fst (getVerticalEdge b d container isReverse) = Inr e \<and>
             rect e = (case rangeClientRect b (scroll d) rng of
                         Some r \<Rightarrow> Some r
                       | None \<Rightarrow>
                           if nodeType d (startContainer rng) = ELEMENT_NODE
                           then Some (boundingClientRect b (scroll d) (startContainer rng))
                           else None) \<and>
             (rect e \<noteq> None \<longrightarrow> rect e = rangeRect_spec b d rng) \<and>
             (rect e = None \<longrightarrow> \<not> isEdge e)"
  using assms
  by (auto simp: getVerticalEdge_def rangeRect_def rangeRect_spec_def Let_def
      split: option.splits)

theorem getVerticalEdge_caret_rect_witness:
  "\<not> isInput exElementCaretPage exDiv \<and> isContentEditable exElementCaretPage exDiv
     \<and> getRangeAt0 exElementCaretPage = Some (caretAt exDiv 0) \<and> collapsed (caretAt exDiv 0)
     \<and> nodeType exElementCaretPage (startContainer (caretAt exDiv 0)) = ELEMENT_NODE
     \<and> rangeClientRect exTextRectBrowser (scroll exElementCaretPage) (caretAt exDiv 0) = None
     \<and> (\<exists>e. fst (getVerticalEdge exTextRectBrowser exElementCaretPage exDiv True) = Inr e
             \<and> rect e = Some exBox)"
proof -
  have h1: "\<not> isInput exElementCaretPage exDiv"
    by (simp add: isInput_def exElementCaretPage_def exPage_def exDiv_def)
  have h2: "isContentEditable exElementCaretPage exDiv"
    by (simp add: exElementCaretPage_def exPage_def exDiv_def)
  have h3: "getRangeAt0 exElementCaretPage = Some (caretAt exDiv 0)"
    by (simp add: getRangeAt0_def exElementCaretPage_def exDiv_def)
  have h4: "collapsed (caretAt exDiv 0)"
    by (simp add: collapsed_def caretAt_def)
  have n: "nodeType exElementCaretPage (startContainer (caretAt exDiv 0)) = ELEMENT_NODE"
    by (simp add: exElementCaretPage_def exPage_def caretAt_def exDiv_def ELEMENT_NODE_def)
  have r: "rangeClientRect exTextRectBrowser (scroll exElementCaretPage) (caretAt exDiv 0) = None"
    by (simp add: exTextRectBrowser_def exPage_def caretAt_def exDiv_def)
  have h5: "nodeType exElementCaretPage (startContainer (caretAt exDiv 0)) = ELEMENT_NODE
      \<longrightarrow> rangeClientRect exTextRectBrowser (scroll exElementCaretPage) (caretAt exDiv 0) = None"
    using r by simp
  have bx: "boundingClientRect exTextRectBrowser (scroll exElementCaretPage)
      (startContainer (caretAt exDiv 0)) = exBox"
    by (simp add: exTextRectBrowser_def exBrowser_def)
  show ?thesis
    using h1 h2 h3 h4 n r bx getVerticalEdge_caret_rect [OF h1 h2 h3 h4 h5, of True]
    by auto
qed

section \<open>The queries leave the state alone\<close>

text \<open>
  Claim C5. \<^verbatim>\<open>isHorizontalEdge\<close> and \<^verbatim>\<open>getVerticalEdge\<close> leave the state as they
  found it, the ranges of the selection and their boundary points included, for every
  container, direction and state, also when the call raises.
\<close>

theorem edge_queries_frame:
  "snd (isHorizontalEdge d container isReverse) = d
     \<and> snd (getVerticalEdge b d container isReverse) = d"
  by (auto simp: isHorizontalEdge_def getVerticalEdge_def Let_def
      split: option.splits sum.splits prod.splits)

theorem edge_queries_frame_witness:
  "ranges (snd (isHorizontalEdge exPage exDiv False)) = [caretAt exTextCd 2]
     \<and> ranges (snd (getVerticalEdge exBrowser exPage exDiv True)) = [caretAt exTextCd 2]"
  using edge_queries_frame [of exPage exDiv False exBrowser]
    edge_queries_frame [of exPage exDiv True exBrowser]
  by (simp add: exPage_def exTextCd_def)

section \<open>Properties of placeCaretAtHorizontalEdge\<close>

lemma set_selection_zero:
  "set_selectionEnd (set_selectionStart d c 0) c 0
     = d\<lparr>selectionStart := (selectionStart d)(c := 0), selectionEnd := (selectionEnd d)(c := 0)\<rparr>"
  by (simp add: set_selectionEnd_def set_selectionStart_def setSelectionRange_def Let_def)

lemma set_selection_length:
  "n = length (inputValue d c) \<Longrightarrow>
   set_selectionEnd (set_selectionStart d c n) c n
     = d\<lparr>selectionStart := (selectionStart d)(c := n), selectionEnd := (selectionEnd d)(c := n)\<rparr>"
  by (simp add: set_selectionEnd_def set_selectionStart_def setSelectionRange_def Let_def)

lemma inputValue_set_selectionStart:
  "inputValue (set_selectionStart d c n) = inputValue d"
  by (simp add: set_selectionStart_def setSelectionRange_def Let_def)

lemma horizontal_input:
  "isInput d c \<Longrightarrow>
   placeCaretAtHorizontalEdge d c isReverse
     = d\<lparr>selectionStart := (selectionStart d)(c := (if isReverse then 0 else length (inputValue d c))),
         selectionEnd := (selectionEnd d)(c := (if isReverse then 0 else length (inputValue d c))),
         activeElement := Some c\<rparr>"
  by (simp add: placeCaretAtHorizontalEdge_def Let_def focus_def set_selection_zero
        set_selection_length inputValue_set_selectionStart)

lemma horizontal_rich:
  "\<not> isInput d c \<Longrightarrow> isContentEditable d c \<Longrightarrow>
   placeCaretAtHorizontalEdge d c isReverse
     = d\<lparr>ranges := [caretAt c (if isReverse then 0 else nodeLength d c)],
         activeElement := Some c\<rparr>"
  by (simp add: placeCaretAtHorizontalEdge_def Let_def focus_def addRange_def
        removeAllRanges_def createRange_def selectNodeContents_def collapse_def caretAt_def)

lemma horizontal_other:
  "\<not> isInput d c \<Longrightarrow> \<not> isContentEditable d c \<Longrightarrow>
   placeCaretAtHorizontalEdge d c isReverse = d\<lparr>activeElement := Some c\<rparr>"
  by (simp add: placeCaretAtHorizontalEdge_def focus_def)

text \<open>
  Claim C3. After \<^verbatim>\<open>placeCaretAtHorizontalEdge\<close>: on an input or textarea the
  control's selection start and end are both 0 (reverse) or both the length of the
  value (forward), so that reading them after a reverse placement gives (0, 0), and the
  container has the focus; on a rich content-editable region the selection is the one
  range that \<^verbatim>\<open>selectNodeContents\<close> makes over the container, collapsed to its start
  (reverse) or its end (forward), and the container has the focus; on any other
  container only the focus changes.
\<close>

theorem placeCaretAtHorizontalEdge_effect:
  "(isInput d c \<longrightarrow>
      selectionStart (placeCaretAtHorizontalEdge d c isReverse) c
        = (if isReverse then 0 else length (inputValue d c)) \<and>
      selectionEnd (placeCaretAtHorizontalEdge d c isReverse) c
        = (if isReverse then 0 else length (inputValue d c)) \<and>
      activeElement (placeCaretAtHorizontalEdge d c isReverse) = Some c \<and>
      (selectionStart (placeCaretAtHorizontalEdge d c True) c,
       selectionEnd (placeCaretAtHorizontalEdge d c True) c) = (0, 0))
   \<and> (\<not> isInput d c \<and> isContentEditable d c \<longrightarrow>
      ranges (placeCaretAtHorizontalEdge d c isReverse)
        = [collapse (selectNodeContents d createRange c) isReverse] \<and>
      collapse (selectNodeContents d createRange c) isReverse
        = caretAt c (if isReverse then 0 else nodeLength d c) \<and>
      activeElement (placeCaretAtHorizontalEdge d c isReverse) = Some c)
   \<and> (\<not> isInput d c \<and> \<not> isContentEditable d c \<longrightarrow>
      placeCaretAtHorizontalEdge d c isReverse = d\<lparr>activeElement := Some c\<rparr>)"
  by (simp add: horizontal_input horizontal_rich horizontal_other createRange_def
        selectNodeContents_def collapse_def caretAt_def)

theorem placeCaretAtHorizontalEdge_effect_witness:
  "isInput exPage exInput
     \<and> (selectionStart exPage exInput, selectionEnd exPage exInput) = (2, 4)
     \<and> (selectionStart (placeCaretAtHorizontalEdge exPage exInput True) exInput,
        selectionEnd (placeCaretAtHorizontalEdge exPage exInput True) exInput) = (0, 0)
     \<and> activeElement (placeCaretAtHorizontalEdge exPage exInput True) = Some exInput"
proof -
  have h: "isInput exPage exInput"
    by (simp add: isInput_def exPage_def exInput_def)
  have s: "(selectionStart exPage exInput, selectionEnd exPage exInput) = (2, 4)"
    by (simp add: exPage_def exInput_def)
  show ?thesis
    using h s placeCaretAtHorizontalEdge_effect [of exPage exInput True] by simp
qed

section \<open>Properties of placeCaretAtVerticalEdge\<close>

subsection \<open>The paths through one call\<close>

lemma vertical_delegates:
  "rect' = None \<or> \<not> isContentEditable d c \<Longrightarrow>
   placeCaretAtVerticalEdge b d c isReverse rect' m = (Inr (), placeCaretAtHorizontalEdge d c isReverse)"
  by (subst placeCaretAtVerticalEdge.simps) (auto split: option.splits)

lemma vertical_raises:
  "isContentEditable d c \<Longrightarrow> pointResolution b d c isReverse r = Inl e \<Longrightarrow>
   placeCaretAtVerticalEdge b d c isReverse (Some r) m = (Inl e, set_zIndex d c ''10000'')"
  by (subst placeCaretAtVerticalEdge.simps) (simp add: pointResolution_def Let_def)

lemma vertical_found:
  "isContentEditable d c \<Longrightarrow> pointResolution b d c isReverse r = Inr found \<Longrightarrow>
   insideContainer c found = Some rng \<Longrightarrow>
   placeCaretAtVerticalEdge b d c isReverse (Some r) m = (Inr (), applyRange (afterResolution d c) c rng)"
  by (subst placeCaretAtVerticalEdge.simps)
     (simp add: pointResolution_def insideContainer_def afterResolution_def applyRange_def Let_def)

lemma vertical_fallback:
  "isContentEditable d c \<Longrightarrow> pointResolution b d c isReverse r = Inr found \<Longrightarrow>
   insideContainer c found = None \<Longrightarrow>
   placeCaretAtVerticalEdge b d c isReverse (Some r) False
     = (Inr (), placeCaretAtHorizontalEdge (afterResolution d c) c isReverse)"
  by (subst placeCaretAtVerticalEdge.simps)
     (simp add: pointResolution_def insideContainer_def afterResolution_def Let_def)

lemma vertical_retry:
  "isContentEditable d c \<Longrightarrow> pointResolution b d c isReverse r = Inr found \<Longrightarrow>
   insideContainer c found = None \<Longrightarrow>
   placeCaretAtVerticalEdge b d c isReverse (Some r) True
     = placeCaretAtVerticalEdge b (scrollIntoView (afterResolution d c) c isReverse) c isReverse (Some r) False"
  by (subst placeCaretAtVerticalEdge.simps)
     (simp add: pointResolution_def insideContainer_def afterResolution_def Let_def)



lemma exPage_first_resolution:
  "pointResolution exBrowser exPage exDiv True exCaret = Inr None"
  by (simp add: pointResolution_def caretRangeFromPoint_def set_zIndex_def exBrowser_def
        exPage_def Let_def)

lemma exPage_second_resolution:
  "pointResolution exBrowser (scrollIntoView (afterResolution exPage exDiv) exDiv True) exDiv True exCaret
     = Inr (Some (caretAt exTextAb 1))"
  by (simp add: pointResolution_def caretRangeFromPoint_def set_zIndex_def exBrowser_def
        scrollIntoView_def afterResolution_def view_collapsedAt_def caretAt_def exTextAb_def
        Let_def)

lemma exPage_editable:
  "\<not> isInput exPage exDiv \<and> isContentEditable exPage exDiv"
  by (simp add: isInput_def exPage_def exDiv_def)

lemma exPage_vertical:
  "placeCaretAtVerticalEdge exBrowser exPage exDiv True (Some exCaret) True
     = (Inr (), applyRange (afterResolution (scrollIntoView (afterResolution exPage exDiv) exDiv True) exDiv)
                  exDiv (caretAt exTextAb 1))"
proof -
  have ce: "isContentEditable exPage exDiv"
    using exPage_editable by simp
  have ce': "isContentEditable (scrollIntoView (afterResolution exPage exDiv) exDiv True) exDiv"
    using ce by (simp add: scrollIntoView_def afterResolution_def set_zIndex_def)
  have inside: "insideContainer exDiv (Some (caretAt exTextAb 1)) = Some (caretAt exTextAb 1)"
    by (simp add: insideContainer_def caretAt_def exTextAb_def exDiv_def)
  have "placeCaretAtVerticalEdge exBrowser exPage exDiv True (Some exCaret) True
      = placeCaretAtVerticalEdge exBrowser (scrollIntoView (afterResolution exPage exDiv) exDiv True)
          exDiv True (Some exCaret) False"
    by (rule vertical_retry [OF ce exPage_first_resolution]) (simp add: insideContainer_def)
  also have "\<dots> = (Inr (), applyRange (afterResolution (scrollIntoView (afterResolution exPage exDiv) exDiv True) exDiv)
                  exDiv (caretAt exTextAb 1))"
    by (rule vertical_found [OF ce' exPage_second_resolution inside])
  finally show ?thesis .
qed



text \<open>
  Claim C10. With no rectangle, or on a container that is not content-editable,
  \<^verbatim>\<open>placeCaretAtVerticalEdge\<close> is \<^verbatim>\<open>placeCaretAtHorizontalEdge( container, isReverse )\<close>
  and returns normally: the outcome does not depend on the layout engine (no point is
  resolved) nor on \<^verbatim>\<open>mayUseScroll\<close>, and the z-index and the scroll position stay as
  they were.
\<close>

theorem placeCaretAtVerticalEdge_delegates:
  assumes "rect' = None \<or> \<not> isContentEditable d c"
  shows "placeCaretAtVerticalEdge b d c isReverse rect' m
           = (Inr (), placeCaretAtHorizontalEdge d c isReverse)
         \<and> placeCaretAtVerticalEdge b' d c isReverse rect' m'
           = placeCaretAtVerticalEdge b d c isReverse rect' m
         \<and> zIndex (snd (placeCaretAtVerticalEdge b d c isReverse rect' m)) = zIndex d
         \<and> scroll (snd (placeCaretAtVerticalEdge b d c isReverse rect' m)) = scroll d"
proof -
  have "zIndex (placeCaretAtHorizontalEdge d c isReverse) = zIndex d"
    and "scroll (placeCaretAtHorizontalEdge d c isReverse) = scroll d"
    by (cases "isInput d c"; cases "isContentEditable d c";
        simp add: horizontal_input horizontal_rich horizontal_other)+
  then show ?thesis
    using assms by (simp add: vertical_delegates)
qed

theorem placeCaretAtVerticalEdge_delegates_witness:
  "\<not> isContentEditable exPage exPara
     \<and> placeCaretAtVerticalEdge exBrowser exPage exPara True (Some exCaret) True
         = (Inr (), exPage\<lparr>activeElement := Some exPara\<rparr>)
     \<and> placeCaretAtVerticalEdge exBrowser exPage exDiv True None True
         = (Inr (), placeCaretAtHorizontalEdge exPage exDiv True)"
proof -
  have h: "\<not> isContentEditable exPage exPara"
    by (simp add: exPage_def exPara_def)
  have i: "\<not> isInput exPage exPara"
    by (simp add: isInput_def exPage_def exPara_def)
  show ?thesis
    using h
      placeCaretAtVerticalEdge_delegates [of "Some exCaret" exPage exPara exBrowser True True]
      placeCaretAtVerticalEdge_delegates [of None exPage exDiv exBrowser True True]
    by (simp add: horizontal_other [OF i h])
qed

subsection \<open>The selection after a placement\<close>

lemma caretRangeFromPoint_collapsed:
  "caretRangeFromPoint b d x y = Inr (Some rng) \<Longrightarrow> collapsed rng"
  by (auto simp: caretRangeFromPoint_def view_collapsedAt_def collapsed_def createRange_def setStart_def collapse_def Let_def
      split: if_splits option.splits)

lemma contains_refl: "contains c c"
  by (cases c) simp_all

lemma horizontal_one_range:
  "\<not> isInput d c \<Longrightarrow> isContentEditable d c \<Longrightarrow> oneCollapsedRangeInside (placeCaretAtHorizontalEdge d c isReverse) c"
  by (simp add: horizontal_rich oneCollapsedRangeInside_def caretAt_def collapsed_def contains_refl)

lemma applyRange_ranges: "ranges (applyRange d c rng) = [rng]"
  by (simp add: applyRange_def addRange_def removeAllRanges_def focus_def)

lemma vertical_noscroll_one_range:
  assumes "\<not> isInput d c" and "isContentEditable d c"
    and "fst (placeCaretAtVerticalEdge b d c isReverse rect' False) = Inr ()"
  shows "oneCollapsedRangeInside (snd (placeCaretAtVerticalEdge b d c isReverse rect' False)) c"
proof (cases rect')
  case None
  then show ?thesis using assms by (simp add: vertical_delegates horizontal_one_range)
next
  case (Some r)
  show ?thesis
  proof (cases "pointResolution b d c isReverse r")
    case (Inl e)
    then show ?thesis using assms Some by (simp add: vertical_raises)
  next
    case (Inr found)
    show ?thesis
    proof (cases "insideContainer c found")
      case None
      have "\<not> isInput (afterResolution d c) c" "isContentEditable (afterResolution d c) c"
        using assms by (simp_all add: afterResolution_def set_zIndex_def isInput_def)
      then show ?thesis
        using assms Some Inr None by (simp add: vertical_fallback horizontal_one_range)
    next
      case inside: (Some rng)
      have "collapsed rng"
        using Inr inside
        by (auto simp: pointResolution_def insideContainer_def Let_def
            dest: caretRangeFromPoint_collapsed split: option.splits if_splits)
      moreover have "contains c (startContainer rng)"
        using inside by (auto simp: insideContainer_def split: option.splits if_splits)
      ultimately show ?thesis
        using assms Some Inr inside
        by (simp add: vertical_found oneCollapsedRangeInside_def applyRange_ranges)
    qed
  qed
qed

lemma vertical_one_range:
  assumes "\<not> isInput d c" and "isContentEditable d c"
    and "fst (placeCaretAtVerticalEdge b d c isReverse rect' m) = Inr ()"
  shows "oneCollapsedRangeInside (snd (placeCaretAtVerticalEdge b d c isReverse rect' m)) c"
proof (cases m)
  case False
  then show ?thesis using assms vertical_noscroll_one_range by simp
next
  case True
  show ?thesis
  proof (cases rect')
    case None
    then show ?thesis using assms by (simp add: vertical_delegates horizontal_one_range)
  next
    case (Some r)
    show ?thesis
    proof (cases "pointResolution b d c isReverse r")
      case (Inl e)
      then show ?thesis using assms Some by (simp add: vertical_raises)
    next
      case (Inr found)
      show ?thesis
      proof (cases "insideContainer c found")
        case None
        define d3 where "d3 = scrollIntoView (afterResolution d c) c isReverse"
        have eq: "placeCaretAtVerticalEdge b d c isReverse rect' m
            = placeCaretAtVerticalEdge b d3 c isReverse rect' False"
          using assms(2) Inr None Some True by (simp add: vertical_retry d3_def)
        have "\<not> isInput d3 c" and "isContentEditable d3 c"
          using assms(1,2)
          by (simp_all add: d3_def scrollIntoView_def afterResolution_def set_zIndex_def isInput_def)
        then show ?thesis
          using assms(3) vertical_noscroll_one_range [of d3 c b isReverse rect'] by (simp add: eq)
      next
        case inside: (Some rng)
        have same: "placeCaretAtVerticalEdge b d c isReverse rect' m
            = placeCaretAtVerticalEdge b d c isReverse rect' False"
          using assms(2) Inr inside Some by (simp add: vertical_found)
        show ?thesis
          using assms vertical_noscroll_one_range [of d c b isReverse rect'] by (simp add: same)
      qed
    qed
  qed
qed

text \<open>
  Claim C6, as amended. For every container that is content-editable and not an input,
  after \<^verbatim>\<open>placeCaretAtHorizontalEdge\<close>, and after \<^verbatim>\<open>placeCaretAtVerticalEdge\<close> when it
  returns normally, the document's selection is exactly one collapsed range whose
  boundary point lies in the container or in one of its descendants. On an input or
  textarea \<^verbatim>\<open>placeCaretAtHorizontalEdge\<close> leaves the control's own selection collapsed
  at an offset within its value. On a container that is neither it leaves the ranges of
  the document's selection as they were: only the focus moves.
\<close>

theorem placement_selection:
  "(\<not> isInput d c \<and> isContentEditable d c \<longrightarrow>
      oneCollapsedRangeInside (placeCaretAtHorizontalEdge d c isReverse) c \<and>
      (fst (placeCaretAtVerticalEdge b d c isReverse rect' m) = Inr () \<longrightarrow>
         oneCollapsedRangeInside (snd (placeCaretAtVerticalEdge b d c isReverse rect' m)) c))
   \<and> (isInput d c \<longrightarrow>
      selectionStart (placeCaretAtHorizontalEdge d c isReverse) c
        = selectionEnd (placeCaretAtHorizontalEdge d c isReverse) c \<and>
      selectionEnd (placeCaretAtHorizontalEdge d c isReverse) c
        \<le> length (inputValue (placeCaretAtHorizontalEdge d c isReverse) c))
   \<and> (\<not> isInput d c \<and> \<not> isContentEditable d c \<longrightarrow>
      ranges (placeCaretAtHorizontalEdge d c isReverse) = ranges d)"
proof -
  have other: "ranges (placeCaretAtHorizontalEdge d c isReverse) = ranges d"
    if "\<not> isInput d c" and "\<not> isContentEditable d c"
    using that by (simp add: horizontal_other)
  have control: "selectionStart (placeCaretAtHorizontalEdge d c isReverse) c
        = selectionEnd (placeCaretAtHorizontalEdge d c isReverse) c \<and>
      selectionEnd (placeCaretAtHorizontalEdge d c isReverse) c
        \<le> length (inputValue (placeCaretAtHorizontalEdge d c isReverse) c)"
    if "isInput d c"
    using that by (simp add: horizontal_input)
  show ?thesis
    using other control horizontal_one_range [of d c isReverse]
      vertical_one_range [of d c b isReverse rect' m]
    by blast
qed

theorem placement_selection_witness:
  "\<not> isInput exPage exDiv \<and> isContentEditable exPage exDiv
     \<and> fst (placeCaretAtVerticalEdge exBrowser exPage exDiv True (Some exCaret) True) = Inr ()
     \<and> ranges (snd (placeCaretAtVerticalEdge exBrowser exPage exDiv True (Some exCaret) True))
         = [caretAt exTextAb 1]
     \<and> oneCollapsedRangeInside
         (snd (placeCaretAtVerticalEdge exBrowser exPage exDiv True (Some exCaret) True)) exDiv
     \<and> oneCollapsedRangeInside (placeCaretAtHorizontalEdge exPage exDiv True) exDiv"
  using exPage_editable
    placement_selection [of exPage exDiv True exBrowser "Some exCaret" True]
  by (simp add: exPage_vertical applyRange_ranges)

text \<open>
  Claim C6 as stated fails: on the paragraph, which is not editable, a page with no
  selection still has no selection after either placement.
\<close>

theorem placement_selection_counterexample:
  "\<not> oneCollapsedRangeInside (placeCaretAtHorizontalEdge exNoSelectionPage exPara True) exPara
     \<and> fst (placeCaretAtVerticalEdge exBrowser exNoSelectionPage exPara True (Some exCaret) True) = Inr ()
     \<and> \<not> oneCollapsedRangeInside
           (snd (placeCaretAtVerticalEdge exBrowser exNoSelectionPage exPara True (Some exCaret) True))
           exPara"
proof -
  have h: "\<not> isContentEditable exNoSelectionPage exPara"
    by (simp add: exNoSelectionPage_def exPage_def exPara_def)
  have i: "\<not> isInput exNoSelectionPage exPara"
    by (simp add: isInput_def exNoSelectionPage_def exPage_def exPara_def)
  have r: "ranges exNoSelectionPage = []"
    by (simp add: exNoSelectionPage_def)
  show ?thesis
    using h r by (simp add: vertical_delegates horizontal_other [OF i h] oneCollapsedRangeInside_def)
qed

subsection \<open>Exceptions\<close>

text \<open>
  Claim C7 does not hold of the code. With the caret at the end of the last text of the
  document, outside the container, the loop of \<^verbatim>\<open>isHorizontalEdge\<close> climbs to the
  document node and reads a property of its \<^verbatim>\<open>null\<close> parent. In a browser that has
  only \<^verbatim>\<open>caretPositionFromPoint\<close>, a point that resolves to no position makes the
  polyfill read \<^verbatim>\<open>point.offsetNode\<close> of \<^verbatim>\<open>null\<close>; the call ends there, with the
  container's z-index still raised.
\<close>

theorem caret_utilities_raise:
  "fst (isHorizontalEdge exOutsideCaretPage exDiv False) = Inl TypeError
     \<and> placeCaretAtVerticalEdge exPolyfillBrowser exPage exDiv True (Some exCaret) True
         = (Inl TypeError, set_zIndex exPage exDiv ''10000'')"
proof -
  have 1: "fst (isHorizontalEdge exOutsideCaretPage exDiv False) = Inl TypeError"
    by (simp add: isHorizontalEdge_def exOutsideCaretPage_def exPage_def exDiv_def isInput_def
          getRangeAt0_def caretAt_def collapsed_def lastChild_def Let_def)
  have ce: "isContentEditable exPage exDiv"
    using exPage_editable by simp
  have 2: "pointResolution exPolyfillBrowser exPage exDiv True exCaret = Inl TypeError"
    by (simp add: pointResolution_def caretRangeFromPoint_def exPolyfillBrowser_def Let_def)
  show ?thesis
    using 1 vertical_raises [OF ce 2] by simp
qed

subsection \<open>Placing twice\<close>

lemma pointResolution_sameView:
  "sameView c d d' \<Longrightarrow> pointResolution b d' c isReverse r = pointResolution b d c isReverse r"
  by (simp add: sameView_def pointResolution_def caretRangeFromPoint_def set_zIndex_def Let_def)

lemma horizontal_cases:
  "placeCaretAtHorizontalEdge d c isReverse =
     (if isInput d c then
        d\<lparr>selectionStart := (selectionStart d)(c := (if isReverse then 0 else length (inputValue d c))),
         selectionEnd := (selectionEnd d)(c := (if isReverse then 0 else length (inputValue d c))),
         activeElement := Some c\<rparr>
      else if isContentEditable d c then
        d\<lparr>ranges := [caretAt c (if isReverse then 0 else nodeLength d c)], activeElement := Some c\<rparr>
      else d\<lparr>activeElement := Some c\<rparr>)"
  by (simp add: horizontal_input horizontal_rich horizontal_other)

lemma horizontal_idem:
  "placeCaretAtHorizontalEdge (placeCaretAtHorizontalEdge d c isReverse) c isReverse
     = placeCaretAtHorizontalEdge d c isReverse"
  by (simp add: horizontal_cases isInput_def nodeLength_def)

lemma sameView_horizontal: "sameView c d (placeCaretAtHorizontalEdge d c isReverse)"
  by (simp add: sameView_def horizontal_cases)

lemma sameView_trans: "sameView c d d' \<Longrightarrow> sameView c d' d'' \<Longrightarrow> sameView c d d''"
  by (simp add: sameView_def)

lemma sameView_afterResolution: "sameView c d (afterResolution d c)"
  by (simp add: sameView_def afterResolution_def set_zIndex_def)

lemma sameView_applyRange: "sameView c d (applyRange d c rng)"
  by (simp add: sameView_def applyRange_def addRange_def removeAllRanges_def focus_def)

lemma sameView_elevated: "sameView c d (set_zIndex d c ''10000'')"
  by (simp add: sameView_def set_zIndex_def)

lemma sameView_CE: "sameView c d d' \<Longrightarrow> isContentEditable d' c = isContentEditable d c"
  by (simp add: sameView_def)

lemma applyRange_idem:
  "applyRange (afterResolution (applyRange (afterResolution d c) c rng) c) c rng
     = applyRange (afterResolution d c) c rng"
  by (simp add: applyRange_def afterResolution_def set_zIndex_def addRange_def removeAllRanges_def focus_def)

lemma elevated_idem: "set_zIndex (set_zIndex d c v) c v = set_zIndex d c v"
  by (simp add: set_zIndex_def)

lemma afterResolution_horizontal:
  "afterResolution (placeCaretAtHorizontalEdge (afterResolution d c) c isReverse) c
     = placeCaretAtHorizontalEdge (afterResolution d c) c isReverse"
  by (simp add: horizontal_cases afterResolution_def set_zIndex_def isInput_def)

lemma settled_state:
  "scrollIntoView (afterResolution
      (placeCaretAtHorizontalEdge (afterResolution (scrollIntoView d c isReverse) c) c isReverse) c) c isReverse
     = placeCaretAtHorizontalEdge (afterResolution (scrollIntoView d c isReverse) c) c isReverse"
  by (simp add: horizontal_cases afterResolution_def set_zIndex_def scrollIntoView_def isInput_def)

lemma vertical_idem:
  "placeCaretAtVerticalEdge b (snd (placeCaretAtVerticalEdge b d c isReverse rect' True)) c isReverse rect' True
     = placeCaretAtVerticalEdge b d c isReverse rect' True"
proof (cases "rect' = None \<or> \<not> isContentEditable d c")
  case True
  then have 1: "placeCaretAtVerticalEdge b d c isReverse rect' True = (Inr (), placeCaretAtHorizontalEdge d c isReverse)"
    by (rule vertical_delegates)
  have "rect' = None \<or> \<not> isContentEditable (placeCaretAtHorizontalEdge d c isReverse) c"
    using True sameView_CE [OF sameView_horizontal, of d c isReverse] by simp
  then show ?thesis
    by (simp add: 1 vertical_delegates horizontal_idem)
next
  case False
  then obtain r where r: "rect' = Some r" and ce: "isContentEditable d c" by auto
  show ?thesis
  proof (cases "pointResolution b d c isReverse r")
    case (Inl e)
    have 1: "placeCaretAtVerticalEdge b d c isReverse (Some r) True = (Inl e, set_zIndex d c ''10000'')"
      using ce Inl r by (simp add: vertical_raises)
    have sv: "sameView c d (set_zIndex d c ''10000'')" by (rule sameView_elevated)
    show ?thesis
      using ce Inl r pointResolution_sameView [OF sv, of b isReverse r] sameView_CE [OF sv]
      by (simp add: 1 vertical_raises elevated_idem)
  next
    case (Inr found)
    show ?thesis
    proof (cases "insideContainer c found")
      case (Some rng)
      have 1: "placeCaretAtVerticalEdge b d c isReverse (Some r) True
          = (Inr (), applyRange (afterResolution d c) c rng)"
        using ce Inr Some r by (simp add: vertical_found)
      have sv: "sameView c d (applyRange (afterResolution d c) c rng)"
        by (rule sameView_trans [OF sameView_afterResolution sameView_applyRange])
      show ?thesis
        using ce Inr Some r pointResolution_sameView [OF sv, of b isReverse r] sameView_CE [OF sv]
        by (simp add: 1 vertical_found applyRange_idem)
    next
      case None
      define d3 where "d3 = scrollIntoView (afterResolution d c) c isReverse"
      have 1: "placeCaretAtVerticalEdge b d c isReverse (Some r) True
          = placeCaretAtVerticalEdge b d3 c isReverse (Some r) False"
        using ce Inr None r by (simp add: vertical_retry d3_def)
      have ce3: "isContentEditable d3 c"
        using ce by (simp add: d3_def scrollIntoView_def afterResolution_def set_zIndex_def)
      show ?thesis
      proof (cases "pointResolution b d3 c isReverse r")
        case (Inl e)
        have 2: "placeCaretAtVerticalEdge b d3 c isReverse (Some r) False = (Inl e, set_zIndex d3 c ''10000'')"
          using ce3 Inl r by (simp add: vertical_raises)
        have sv: "sameView c d3 (set_zIndex d3 c ''10000'')" by (rule sameView_elevated)
        show ?thesis
          using ce3 Inl r pointResolution_sameView [OF sv, of b isReverse r] sameView_CE [OF sv]
          by (simp add: 1 2 vertical_raises elevated_idem)
      next
        case found3: (Inr found')
        show ?thesis
        proof (cases "insideContainer c found'")
          case (Some rng)
          have 2: "placeCaretAtVerticalEdge b d3 c isReverse (Some r) False
              = (Inr (), applyRange (afterResolution d3 c) c rng)"
            using ce3 found3 Some r by (simp add: vertical_found)
          have sv: "sameView c d3 (applyRange (afterResolution d3 c) c rng)"
            by (rule sameView_trans [OF sameView_afterResolution sameView_applyRange])
          show ?thesis
            using ce3 found3 Some r pointResolution_sameView [OF sv, of b isReverse r] sameView_CE [OF sv]
            by (simp add: 1 2 vertical_found applyRange_idem)
        next
          case none3: None
          define dF where "dF = placeCaretAtHorizontalEdge (afterResolution d3 c) c isReverse"
          have 2: "placeCaretAtVerticalEdge b d3 c isReverse (Some r) False = (Inr (), dF)"
            using ce3 found3 none3 r by (simp add: vertical_fallback dF_def)
          have sv: "sameView c d3 dF"
            unfolding dF_def by (rule sameView_trans [OF sameView_afterResolution sameView_horizontal])
          have ceF: "isContentEditable dF c"
            using ce3 sameView_CE [OF sv] by simp
          have resF: "pointResolution b dF c isReverse r = Inr found'"
            using found3 pointResolution_sameView [OF sv, of b isReverse r] by simp
          have settled: "scrollIntoView (afterResolution dF c) c isReverse = dF"
            unfolding dF_def d3_def by (rule settled_state)
          have aF: "afterResolution dF c = dF"
            unfolding dF_def by (rule afterResolution_horizontal)
          have "placeCaretAtVerticalEdge b dF c isReverse (Some r) True
              = placeCaretAtVerticalEdge b dF c isReverse (Some r) False"
            using vertical_retry [OF ceF resF none3] r settled by simp
          also have "\<dots> = (Inr (), placeCaretAtHorizontalEdge dF c isReverse)"
            using vertical_fallback [OF ceF resF none3] r aF by simp
          also have "placeCaretAtHorizontalEdge dF c isReverse = dF"
            unfolding dF_def by (rule horizontal_idem)
          finally show ?thesis
            by (simp add: 1 2 r)
        qed
      qed
    qed
  qed
qed

text \<open>
  Claim C9. Calling \<^verbatim>\<open>placeCaretAtVerticalEdge( container, isReverse, rect )\<close> a
  second time, with the same arguments, on the page the first call left, has the
  outcome of the first call and leaves the page as the first call left it; the ranges
  of the selection in particular are the same after the second call as after the first.
\<close>

theorem placeCaretAtVerticalEdge_idempotent:
  "placeCaretAtVerticalEdge b (snd (placeCaretAtVerticalEdge b d c isReverse rect' True))
       c isReverse rect' True
     = placeCaretAtVerticalEdge b d c isReverse rect' True
   \<and> ranges (snd (placeCaretAtVerticalEdge b
                    (snd (placeCaretAtVerticalEdge b d c isReverse rect' True))
                    c isReverse rect' True))
     = ranges (snd (placeCaretAtVerticalEdge b d c isReverse rect' True))"
  by (simp add: vertical_idem)

theorem placeCaretAtVerticalEdge_idempotent_witness:
  "ranges (snd (placeCaretAtVerticalEdge exBrowser exPage exDiv True (Some exCaret) True))
     = [caretAt exTextAb 1]
   \<and> ranges (snd (placeCaretAtVerticalEdge exBrowser
                    (snd (placeCaretAtVerticalEdge exBrowser exPage exDiv True (Some exCaret) True))
                    exDiv True (Some exCaret) True))
     = [caretAt exTextAb 1]"
  using placeCaretAtVerticalEdge_idempotent [of exBrowser exPage exDiv True "Some exCaret"]
  by (simp add: exPage_vertical applyRange_ranges)

end
